theory Spec2Isabelle
  imports Main "HOL-Library.AList"
begin

section \<open>JavaScript values, exceptions and promises\<close>

text \<open>
  The brokers are JavaScript classes. The values they handle (channel responses, capability
  values, model attributes) are untyped, so the embedding carries a small universe of
  JavaScript values. An object is the association list of its own properties; a property is
  looked up by the first entry with its name. Numbers are the integers together with
  \<open>NaN\<close>, which is enough for the truthiness tests of the program.
\<close>

datatype jsval =
    JUndefined
  | JNull
  | JBool bool
  | JNum int
  | JNaN
  | JStr string
  | JObj "(string \<times> jsval) list"

text \<open>\<open>ToBoolean\<close>: what \<open>if (v)\<close> and \<open>!! v\<close> test.\<close>

fun truthy :: "jsval \<Rightarrow> bool" where
  "truthy JUndefined = False"
| "truthy JNull = False"
| "truthy (JBool b) = b"
| "truthy (JNum n) = (n \<noteq> 0)"
| "truthy JNaN = False"
| "truthy (JStr s) = (s \<noteq> [])"
| "truthy (JObj kvs) = True"

text \<open>
  What a \<open>throw\<close> carries: the \<open>TypeError\<close> of the language itself, an error built by
  \<open>AuthErrors.toError(name)\<close> (identified by its name, which is what \<open>AuthErrors.is\<close>
  compares), or any other thrown value.
\<close>

datatype exn = TypeError | AuthError string | Raised jsval

text \<open>
  \<open>v.name\<close>: reading a property of \<open>undefined\<close> or \<open>null\<close> throws a \<open>TypeError\<close>; an object
  gives the property or \<open>undefined\<close>; the other primitives have none of the properties the
  program reads (\<open>err\<close>, \<open>suppAuthorized\<close>, \<open>confirmation_code\<close>, \<open>signedInUser\<close>,
  \<open>channel_id\<close>), so the read gives \<open>undefined\<close>.
\<close>

fun get_prop :: "jsval \<Rightarrow> string \<Rightarrow> exn + jsval" where
  "get_prop JUndefined k = Inl TypeError"
| "get_prop JNull k = Inl TypeError"
| "get_prop (JObj kvs) k = Inr (case map_of kvs k of None \<Rightarrow> JUndefined | Some v \<Rightarrow> v)"
| "get_prop v k = Inr JUndefined"

text \<open>
  \<open>v.name = x\<close> in strict mode (the broker is an ES module): only an object takes the
  property; \<open>undefined\<close>, \<open>null\<close> and the primitives throw a \<open>TypeError\<close>.
\<close>

fun set_prop :: "jsval \<Rightarrow> string \<Rightarrow> jsval \<Rightarrow> exn + jsval" where
  "set_prop (JObj kvs) k x = Inr (JObj (AList.update k x kvs))"
| "set_prop v k x = Inl TypeError"

text \<open>
  A promise is seen in the state it settles in; \<open>Pending\<close> is a promise that never settles.
  A call either throws synchronously or returns.
\<close>

datatype 'a promise = Fulfilled 'a | Rejected exn | Pending

datatype 'a outcome = SyncThrow exn | Returns 'a

text \<open>
  The promise made by \<open>Promise.resolve().then(() => body)\<close>: a throw of the body rejects it,
  a promise returned by the body is adopted.
\<close>

fun settle :: "'a promise outcome \<Rightarrow> 'a promise" where
  "settle (SyncThrow e) = Rejected e"
| "settle (Returns p) = p"

section \<open>The pairing authority broker (models/auth_brokers/pairing/authority.js)\<close>

text \<open>
  The notification channel is a collaborator: each of its two methods is a function of the
  message and the data, which throws or returns a promise. Its command table \<open>COMMANDS\<close> is
  not part of the sources and is a parameter of the broker.
\<close>

record channel =
  chan_request :: "jsval \<Rightarrow> jsval \<Rightarrow> jsval promise outcome"
  chan_send :: "jsval \<Rightarrow> jsval \<Rightarrow> jsval promise outcome"

record commands =
  PAIR_HEARTBEAT :: jsval
  PAIR_REQUEST_SUPPLICANT_METADATA :: jsval
  PAIR_AUTHORIZE :: jsval
  PAIR_DECLINE :: jsval
  PAIR_COMPLETE :: jsval

text \<open>
  The fields of the broker that authority.js reads and writes: the attributes
  \<open>remoteMetaData\<close> and \<open>confirmationCode\<close> (\<open>undefined\<close> until set), the timer handle
  \<open>_heartbeatInterval\<close> (\<open>None\<close> is \<open>undefined\<close>), the relier's \<open>channelId\<close>, the
  channel's command table, and the class field \<open>setRemoteMetaData\<close>. That field holds the
  function imported from ./remote-metadata, whose code is not part of the repository files
  at hand: what it stores as \<open>remoteMetaData\<close> when it is given a response, or what it
  throws, is a parameter of the broker (a helper that throws is taken to have stored
  nothing).
\<close>

record broker =
  remoteMetaData :: jsval
  confirmationCode :: jsval
  heartbeatInterval :: "nat option"
  relier_channelId :: jsval
  COMMANDS :: commands
  setRemoteMetaData :: "jsval \<Rightarrow> jsval outcome"

text \<open>
  What the broker does to its collaborators, in order: calls of the channel, calls of the
  state machine (\<open>heartbeatError\<close> is the only method of the state machine that authority.js
  calls), notifications triggered on the notifier, and the call of the imported helper
  \<open>setRemoteMetaData\<close> with its argument. What a collaborator does in turn when it is called
  is its own and is not recorded. \<open>console.log\<close> is left out.
\<close>

datatype effect =
    ChannelRequest jsval jsval
  | ChannelSend jsval jsval
  | StateMachineHeartbeatError jsval
  | NotifierTrigger string
  | SetRemoteMetaData jsval

fun is_state_machine_call :: "effect \<Rightarrow> bool" where
  "is_state_machine_call (StateMachineHeartbeatError e) = True"
| "is_state_machine_call x = False"


text \<open>The default parameter \<open>data = {}\<close>: it replaces \<open>undefined\<close> only.\<close>

definition default_data :: "jsval \<Rightarrow> jsval" where
  "default_data d = (if d = JUndefined then JObj [] else d)"

text \<open>
  \<open>request(message, data = {})\<close> and \<open>send(message, data = {})\<close>. The body runs inside
  \<open>Promise.resolve().then\<close>: the assignment to \<open>data.channel_id\<close> comes first, and the channel
  is called only if it did not throw.
\<close>

definition request :: "broker \<Rightarrow> channel \<Rightarrow> jsval \<Rightarrow> jsval \<Rightarrow> effect list \<times> jsval promise outcome" where
  "request b chan message data =
     (case set_prop (default_data data) ''channel_id'' (relier_channelId b) of
        Inl e \<Rightarrow> ([], Returns (settle (SyncThrow e)))
      | Inr d \<Rightarrow> ([ChannelRequest message d], Returns (settle (chan_request chan message d))))"

definition send :: "broker \<Rightarrow> channel \<Rightarrow> jsval \<Rightarrow> jsval \<Rightarrow> effect list \<times> jsval promise outcome" where
  "send b chan message data =
     (case set_prop (default_data data) ''channel_id'' (relier_channelId b) of
        Inl e \<Rightarrow> ([], Returns (settle (SyncThrow e)))
      | Inr d \<Rightarrow> ([ChannelSend message d], Returns (settle (chan_send chan message d))))"

text \<open>
  The callback that \<open>heartbeat\<close> attaches to the request: the calls it makes, in order. A
  throw inside it (reading \<open>err\<close> of \<open>undefined\<close> or \<open>null\<close>) rejects a promise that nobody
  holds, so only the calls made before it remain.
\<close>

definition heartbeat_response :: "jsval \<Rightarrow> effect list" where
  "heartbeat_response response =
     (case get_prop response ''err'' of
        Inl e \<Rightarrow> []
      | Inr err \<Rightarrow>
          if truthy err then [StateMachineHeartbeatError err]
          else (case get_prop response ''suppAuthorized'' of
                  Inl e \<Rightarrow> []
                | Inr a \<Rightarrow> if truthy a then [NotifierTrigger ''pair:supp:authorize''] else []))"

text \<open>
  \<open>heartbeat()\<close>: one request, with a fulfilment handler only. The promise is dropped and
  the method returns \<open>undefined\<close>.
\<close>

definition heartbeat :: "broker \<Rightarrow> channel \<Rightarrow> effect list \<times> unit outcome" where
  "heartbeat b chan =
     (case request b chan (PAIR_HEARTBEAT (COMMANDS b)) JUndefined of
        (effs, SyncThrow e) \<Rightarrow> (effs, SyncThrow e)
      | (effs, Returns (Fulfilled response)) \<Rightarrow> (effs @ heartbeat_response response, Returns ())
      | (effs, Returns p) \<Rightarrow> (effs, Returns ()))"

text \<open>\<open>_provisionScopedKeys()\<close> throws whenever it is called.\<close>

definition provisionScopedKeys :: "broker \<Rightarrow> unit outcome" where
  "provisionScopedKeys b = SyncThrow (Raised (JStr ''this should never be called''))"

text \<open>
  \<open>getSupplicantMetadata()\<close>: the cached attribute if it is truthy, else one request whose
  fulfilment handler calls \<open>this.setRemoteMetaData(response)\<close>, then reads
  \<open>response.confirmation_code\<close> (which throws on \<open>undefined\<close> and \<open>null\<close>, after the helper
  has run), stores it and resolves with the \<open>remoteMetaData\<close> attribute as it then is. There
  is no rejection handler.
\<close>

definition getSupplicantMetadata ::
  "broker \<Rightarrow> channel \<Rightarrow> broker \<times> effect list \<times> jsval promise outcome" where
  "getSupplicantMetadata b chan =
     (if truthy (remoteMetaData b) then (b, [], Returns (Fulfilled (remoteMetaData b)))
      else
        (case request b chan (PAIR_REQUEST_SUPPLICANT_METADATA (COMMANDS b)) JUndefined of
           (effs, SyncThrow e) \<Rightarrow> (b, effs, SyncThrow e)
         | (effs, Returns (Fulfilled response)) \<Rightarrow>
             (case setRemoteMetaData b response of
                SyncThrow e \<Rightarrow> (b, effs @ [SetRemoteMetaData response], Returns (Rejected e))
              | Returns v \<Rightarrow>
                  (let b1 = b\<lparr>remoteMetaData := v\<rparr> in
                   case get_prop response ''confirmation_code'' of
                     Inl e \<Rightarrow> (b1, effs @ [SetRemoteMetaData response], Returns (Rejected e))
                   | Inr c \<Rightarrow>
                       (let b2 = b1\<lparr>confirmationCode := c\<rparr>
                        in (b2, effs @ [SetRemoteMetaData response],
                            Returns (Fulfilled (remoteMetaData b2))))))
         | (effs, Returns (Rejected e)) \<Rightarrow> (b, effs, Returns (Rejected e))
         | (effs, Returns Pending) \<Rightarrow> (b, effs, Returns Pending)))"

text \<open>The three authorization hooks: a send each, after a notification for the first.\<close>

definition afterPairAuthAllow :: "broker \<Rightarrow> channel \<Rightarrow> effect list \<times> jsval promise outcome" where
  "afterPairAuthAllow b chan =
     (case send b chan (PAIR_AUTHORIZE (COMMANDS b)) JUndefined of
        (effs, out) \<Rightarrow> (NotifierTrigger ''pair:auth:authorize'' # effs, out))"

definition afterPairAuthDecline :: "broker \<Rightarrow> channel \<Rightarrow> effect list \<times> jsval promise outcome" where
  "afterPairAuthDecline b chan = send b chan (PAIR_DECLINE (COMMANDS b)) JUndefined"

definition afterPairAuthComplete :: "broker \<Rightarrow> channel \<Rightarrow> effect list \<times> jsval promise outcome" where
  "afterPairAuthComplete b chan = send b chan (PAIR_COMPLETE (COMMANDS b)) JUndefined"

subsection \<open>The heartbeat timer\<close>

text \<open>
  The host's interval timers: \<open>setInterval\<close> hands out a handle that was never used before
  and the interval stays active until \<open>clearInterval\<close> receives its handle. Every interval
  of this program has the same callback, \<open>() => this.heartbeat()\<close>, and the same period,
  so a set of active handles describes the timers. \<open>clearInterval(undefined)\<close> and
  \<open>clearInterval\<close> of a handle that is not active do nothing.
\<close>

record timers =
  active :: "nat list"
  next_handle :: nat

definition setInterval :: "timers \<Rightarrow> nat \<times> timers" where
  "setInterval t =
     (next_handle t, t\<lparr>active := active t @ [next_handle t], next_handle := Suc (next_handle t)\<rparr>)"

definition clearInterval :: "nat option \<Rightarrow> timers \<Rightarrow> timers" where
  "clearInterval h t = (case h of None \<Rightarrow> t | Some i \<Rightarrow> t\<lparr>active := removeAll i (active t)\<rparr>)"

record world =
  brk :: broker
  intervals :: timers

definition startHeartbeat :: "world \<Rightarrow> world" where
  "startHeartbeat w =
     (case setInterval (intervals w) of
        (h, t) \<Rightarrow> w\<lparr>brk := (brk w)\<lparr>heartbeatInterval := Some h\<rparr>, intervals := t\<rparr>)"

definition stopHeartbeat :: "world \<Rightarrow> world" where
  "stopHeartbeat w = w\<lparr>intervals := clearInterval (heartbeatInterval (brk w)) (intervals w)\<rparr>"

text \<open>
  \<open>fetch()\<close>: \<open>super.fetch()\<close>, then \<open>getSupplicantMetadata()\<close>, then \<open>startHeartbeat()\<close>,
  each only if the step before it fulfilled. The fetch of the OAuth broker is not among the
  sources; its outcome is a parameter.
\<close>

definition fetch ::
  "unit promise outcome \<Rightarrow> world \<Rightarrow> channel \<Rightarrow> world \<times> effect list \<times> unit promise outcome" where
  "fetch super_fetch w chan =
     (case settle super_fetch of
        Rejected e \<Rightarrow> (w, [], Returns (Rejected e))
      | Pending \<Rightarrow> (w, [], Returns Pending)
      | Fulfilled u \<Rightarrow>
          (case getSupplicantMetadata (brk w) chan of
             (b, effs, out) \<Rightarrow>
               (case settle out of
                  Rejected e \<Rightarrow> (w\<lparr>brk := b\<rparr>, effs, Returns (Rejected e))
                | Pending \<Rightarrow> (w\<lparr>brk := b\<rparr>, effs, Returns Pending)
                | Fulfilled m \<Rightarrow> (startHeartbeat (w\<lparr>brk := b\<rparr>), effs, Returns (Fulfilled ())))))"

text \<open>
  One period of the timer: every active interval calls \<open>heartbeat()\<close> once. The channel
  argument is the behaviour of the channel during that period.
\<close>

definition tick :: "world \<Rightarrow> channel \<Rightarrow> effect list" where
  "tick w chan = concat (map (\<lambda>h. fst (heartbeat (brk w) chan)) (active (intervals w)))"

text \<open>
  The methods of authority.js as operations on the world, and the passing of one timer
  period. Each returns the world it leaves and the calls it made.
\<close>

datatype op =
    StartHeartbeat
  | StopHeartbeat
  | Heartbeat channel
  | GetSupplicantMetadata channel
  | AfterPairAuthAllow channel
  | AfterPairAuthDecline channel
  | AfterPairAuthComplete channel
  | Request channel jsval jsval
  | Send channel jsval jsval
  | Fetch "unit promise outcome" channel
  | ProvisionScopedKeys
  | Tick channel

fun exec :: "op \<Rightarrow> world \<Rightarrow> world \<times> effect list" where
  "exec StartHeartbeat w = (startHeartbeat w, [])"
| "exec StopHeartbeat w = (stopHeartbeat w, [])"
| "exec (Heartbeat chan) w = (w, fst (heartbeat (brk w) chan))"
| "exec (GetSupplicantMetadata chan) w =
     (case getSupplicantMetadata (brk w) chan of (b, effs, out) \<Rightarrow> (w\<lparr>brk := b\<rparr>, effs))"
| "exec (AfterPairAuthAllow chan) w = (w, fst (afterPairAuthAllow (brk w) chan))"
| "exec (AfterPairAuthDecline chan) w = (w, fst (afterPairAuthDecline (brk w) chan))"
| "exec (AfterPairAuthComplete chan) w = (w, fst (afterPairAuthComplete (brk w) chan))"
| "exec (Request chan message data) w = (w, fst (request (brk w) chan message data))"
| "exec (Send chan message data) w = (w, fst (send (brk w) chan message data))"
| "exec (Fetch super_fetch chan) w =
     (case fetch super_fetch w chan of (w', effs, out) \<Rightarrow> (w', effs))"
| "exec ProvisionScopedKeys w = (w, [])"
| "exec (Tick chan) w = (w, tick w chan)"

fun exec_all :: "op list \<Rightarrow> world \<Rightarrow> world \<times> effect list" where
  "exec_all [] w = (w, [])"
| "exec_all (x # xs) w =
     (case exec x w of (w1, e1) \<Rightarrow> (case exec_all xs w1 of (w2, e2) \<Rightarrow> (w2, e1 @ e2)))"

fun is_heartbeat_request :: "broker \<Rightarrow> effect \<Rightarrow> bool" where
  "is_heartbeat_request b (ChannelRequest message d) = (message = PAIR_HEARTBEAT (COMMANDS b))"
| "is_heartbeat_request b x = False"

section \<open>The base authentication broker (models/auth_brokers/base)\<close>

text \<open>
  The base broker itself is not among the sources: its test suite is. The definitions of
  this section follow the specification, and the assertions of the test suite where the
  specification leaves a choice.
\<close>

record behavior =
  halt :: jsval
  endpoint :: jsval

definition continue_behavior :: behavior where
  \<comment> \<open>Modelled from the spec: the base broker is missing; "continue" is \<open>{}\<close>, no \<open>halt\<close>.\<close>
  "continue_behavior = \<lparr>halt = JUndefined, endpoint = JUndefined\<rparr>"

definition navigate_behavior :: "string \<Rightarrow> behavior" where
  \<comment> \<open>Modelled from the spec: the base broker is missing; "navigate" has \<open>halt = true\<close> and
      \<open>endpoint\<close> names the destination.\<close>
  "navigate_behavior ep = \<lparr>halt = JBool True, endpoint = JStr ep\<rparr>"

record base_broker =
  capabilities :: "string \<rightharpoonup> jsval"
  behaviors :: "string \<rightharpoonup> behavior"
  browserSignedInAccount :: jsval
  view_shown_pending :: bool

subsection \<open>Capabilities\<close>

definition setCapability :: "string \<Rightarrow> jsval \<Rightarrow> base_broker \<Rightarrow> base_broker" where
  \<comment> \<open>Modelled from the spec: the base broker is missing; a direct registry operation.\<close>
  "setCapability name v b = b\<lparr>capabilities := (capabilities b)(name \<mapsto> v)\<rparr>"

definition unsetCapability :: "string \<Rightarrow> base_broker \<Rightarrow> base_broker" where
  \<comment> \<open>Modelled from the spec: the base broker is missing; a direct registry operation.\<close>
  "unsetCapability name b = b\<lparr>capabilities := (capabilities b)(name := None)\<rparr>"

definition getCapability :: "base_broker \<Rightarrow> string \<Rightarrow> jsval" where
  \<comment> \<open>Modelled from the spec: the base broker is missing; "returns the raw stored value or
      undefined".\<close>
  "getCapability b name = (case capabilities b name of None \<Rightarrow> JUndefined | Some v \<Rightarrow> v)"

definition hasCapability :: "base_broker \<Rightarrow> string \<Rightarrow> bool" where
  \<comment> \<open>Modelled from the spec: the base broker is missing; "true iff the stored value is
      truthy".\<close>
  "hasCapability b name = truthy (getCapability b name)"

definition default_capabilities :: "string \<rightharpoonup> jsval" where
  \<comment> \<open>Modelled from the spec: the base broker is missing; the defaults seeded at
      construction.\<close>
  "default_capabilities =
     [''signup'' \<mapsto> JBool True,
      ''handleSignedInNotification'' \<mapsto> JBool True,
      ''emailVerificationMarketingSnippet'' \<mapsto> JBool True,
      ''fxaStatus'' \<mapsto> JBool True]"

subsection \<open>Behaviors and lifecycle hooks\<close>

text \<open>The hooks that the test suite of the base broker calls.\<close>

datatype hook =
    AfterChangePassword
  | AfterCompleteResetPassword
  | AfterCompleteSignUp
  | AfterDeleteAccount
  | AfterResetPasswordConfirmationPoll
  | AfterSignIn
  | AfterSignInConfirmationPoll
  | AfterForceAuth
  | BeforeSignIn
  | AfterSignUpConfirmationPoll
  | BeforeSignUpConfirmationPoll

fun hook_name :: "hook \<Rightarrow> string" where
  "hook_name AfterChangePassword = ''afterChangePassword''"
| "hook_name AfterCompleteResetPassword = ''afterCompleteResetPassword''"
| "hook_name AfterCompleteSignUp = ''afterCompleteSignUp''"
| "hook_name AfterDeleteAccount = ''afterDeleteAccount''"
| "hook_name AfterResetPasswordConfirmationPoll = ''afterResetPasswordConfirmationPoll''"
| "hook_name AfterSignIn = ''afterSignIn''"
| "hook_name AfterSignInConfirmationPoll = ''afterSignInConfirmationPoll''"
| "hook_name AfterForceAuth = ''afterForceAuth''"
| "hook_name BeforeSignIn = ''beforeSignIn''"
| "hook_name AfterSignUpConfirmationPoll = ''afterSignUpConfirmationPoll''"
| "hook_name BeforeSignUpConfirmationPoll = ''beforeSignUpConfirmationPoll''"

definition default_behaviors :: "string \<rightharpoonup> behavior" where
  \<comment> \<open>Modelled from the spec: the base broker is missing; every hook defaults to "continue",
      the two confirmation polls to "navigate".\<close>
  "default_behaviors =
     map_of
      [(''afterChangePassword'', continue_behavior),
       (''afterCompleteResetPassword'', continue_behavior),
       (''afterCompleteSignUp'', continue_behavior),
       (''afterDeleteAccount'', continue_behavior),
       (''afterResetPasswordConfirmationPoll'', continue_behavior),
       (''afterSignIn'', continue_behavior),
       (''afterSignInConfirmationPoll'', navigate_behavior ''signin_confirmed''),
       (''afterForceAuth'', continue_behavior),
       (''beforeSignIn'', continue_behavior),
       (''afterSignUpConfirmationPoll'', navigate_behavior ''signup_confirmed''),
       (''beforeSignUpConfirmationPoll'', continue_behavior)]"

definition getBehavior :: "base_broker \<Rightarrow> string \<Rightarrow> behavior outcome" where
  \<comment> \<open>Modelled from the spec: the base broker is missing; an unknown name fails fast.\<close>
  "getBehavior b name =
     (case behaviors b name of
        None \<Rightarrow> SyncThrow (Raised (JStr (''behavior not found for: '' @ name)))
      | Some x \<Rightarrow> Returns x)"

definition setBehavior :: "string \<Rightarrow> behavior \<Rightarrow> base_broker \<Rightarrow> base_broker" where
  \<comment> \<open>Modelled from the spec: the base broker is missing.\<close>
  "setBehavior name x b = b\<lparr>behaviors := (behaviors b)(name \<mapsto> x)\<rparr>"

definition run_hook :: "base_broker \<Rightarrow> hook \<Rightarrow> behavior promise" where
  \<comment> \<open>Modelled from the spec: the base broker is missing; a hook resolves to the behavior
      held under its name. The storage that two of the hooks clear first is not modelled.\<close>
  "run_hook b h =
     (case getBehavior b (hook_name h) of
        SyncThrow e \<Rightarrow> Rejected e
      | Returns x \<Rightarrow> Fulfilled x)"

subsection \<open>Construction and the view-shown notification\<close>

definition new_base_broker :: base_broker where
  \<comment> \<open>Modelled from the spec: the base broker is missing; a freshly constructed broker with no
      explicit configuration. The subscription to \<open>view-shown\<close> is made here, once.\<close>
  "new_base_broker =
     \<lparr>capabilities = default_capabilities, behaviors = default_behaviors,
      browserSignedInAccount = JUndefined, view_shown_pending = True\<rparr>"

definition trigger_view_shown :: "base_broker \<Rightarrow> base_broker \<times> nat" where
  \<comment> \<open>Modelled from the spec: the base broker is missing. The specification says that
      \<open>afterLoaded\<close> is invoked exactly once "even if triggered multiple times", and the test
      "is invoked once on the view-shown notification" triggers the notification twice and
      asserts \<open>afterLoaded.calledOnce\<close>: the subscription is used up by the first
      notification. The result counts the invocations of \<open>afterLoaded\<close>.\<close>
  "trigger_view_shown b =
     (if view_shown_pending b then (b\<lparr>view_shown_pending := False\<rparr>, 1) else (b, 0))"

fun trigger_view_shown_times :: "nat \<Rightarrow> base_broker \<Rightarrow> base_broker \<times> nat" where
  "trigger_view_shown_times 0 b = (b, 0)"
| "trigger_view_shown_times (Suc n) b =
     (case trigger_view_shown b of
        (b1, k) \<Rightarrow> (case trigger_view_shown_times n b1 of (b2, m) \<Rightarrow> (b2, k + m)))"

subsection \<open>The status fetch\<close>

definition is_invalid_web_channel :: "exn \<Rightarrow> bool" where
  \<comment> \<open>Modelled from the spec: lib/auth-errors is missing; the classification
      \<open>AuthErrors.is(err, 'INVALID_WEB_CHANNEL')\<close>.\<close>
  "is_invalid_web_channel e = (e = AuthError ''INVALID_WEB_CHANNEL'')"

definition fetchFxaStatus :: "base_broker \<Rightarrow> jsval promise \<Rightarrow> base_broker \<times> unit promise" where
  \<comment> \<open>Modelled from the spec: the base broker is missing. The argument is what the channel's
      status request settles to. On success the returned \<open>signedInUser\<close>, if present, is
      stored; an invalid-web-channel error disables the capability and is swallowed; any
      other error propagates.\<close>
  "fetchFxaStatus b reply =
     (case reply of
        Fulfilled response \<Rightarrow>
          (case get_prop response ''signedInUser'' of
             Inr u \<Rightarrow>
               (if u = JUndefined then (b, Fulfilled ())
                else (b\<lparr>browserSignedInAccount := u\<rparr>, Fulfilled ()))
           | Inl e \<Rightarrow> (b, Fulfilled ()))
      | Rejected e \<Rightarrow>
          (if is_invalid_web_channel e
           then (setCapability ''fxaStatus'' (JBool False) b, Fulfilled ())
           else (b, Rejected e))
      | Pending \<Rightarrow> (b, Pending))"

definition base_fetch :: "base_broker \<Rightarrow> jsval promise \<Rightarrow> base_broker \<times> nat \<times> unit promise" where
  \<comment> \<open>Modelled from the spec: the base broker is missing. With the capability \<open>fxaStatus\<close>
      off the fetch resolves without contacting the host; with it on it performs the status
      fetch. The number counts the status requests made.\<close>
  "base_fetch b reply =
     (if hasCapability b ''fxaStatus''
      then (case fetchFxaStatus b reply of (b1, p) \<Rightarrow> (b1, 1, p))
      else (b, 0, Fulfilled ()))"

section \<open>Concrete brokers and channels\<close>

text \<open>
  A broker before any metadata was fetched, whose relier has the channel id \<open>c1\<close> and
  whose helper stores the response as it is, and channels that answer every call the same
  way: with a response, with a rejection, or by throwing.
\<close>

definition example_commands :: commands where
  "example_commands =
     \<lparr>PAIR_HEARTBEAT = JStr ''pair:heartbeat'',
      PAIR_REQUEST_SUPPLICANT_METADATA = JStr ''pair:supp_metadata'',
      PAIR_AUTHORIZE = JStr ''pair:authorize'',
      PAIR_DECLINE = JStr ''pair:decline'',
      PAIR_COMPLETE = JStr ''pair:complete''\<rparr>"

definition example_broker :: broker where
  "example_broker =
     \<lparr>remoteMetaData = JUndefined, confirmationCode = JUndefined, heartbeatInterval = None,
      relier_channelId = JStr ''c1'', COMMANDS = example_commands,
      setRemoteMetaData = (\<lambda>response. Returns response)\<rparr>"

definition example_world :: world where
  "example_world = \<lparr>brk = example_broker, intervals = \<lparr>active = [], next_handle = 1\<rparr>\<rparr>"

definition replying_channel :: "jsval \<Rightarrow> channel" where
  "replying_channel r =
     \<lparr>chan_request = (\<lambda>m d. Returns (Fulfilled r)), chan_send = (\<lambda>m d. Returns (Fulfilled r))\<rparr>"

definition rejecting_channel :: "exn \<Rightarrow> channel" where
  "rejecting_channel e =
     \<lparr>chan_request = (\<lambda>m d. Returns (Rejected e)), chan_send = (\<lambda>m d. Returns (Rejected e))\<rparr>"

definition throwing_channel :: "exn \<Rightarrow> channel" where
  "throwing_channel e = \<lparr>chan_request = (\<lambda>m d. SyncThrow e), chan_send = (\<lambda>m d. SyncThrow e)\<rparr>"

text \<open>
  What the channel answers to the heartbeat request, and to the metadata request, of a
  broker: the state of the promise that \<open>request\<close> returns.
\<close>

definition heartbeat_reply :: "broker \<Rightarrow> channel \<Rightarrow> jsval promise" where
  "heartbeat_reply b chan =
     settle (chan_request chan (PAIR_HEARTBEAT (COMMANDS b))
               (JObj [(''channel_id'', relier_channelId b)]))"

definition metadata_reply :: "broker \<Rightarrow> channel \<Rightarrow> jsval promise" where
  "metadata_reply b chan =
     settle (chan_request chan (PAIR_REQUEST_SUPPLICANT_METADATA (COMMANDS b))
               (JObj [(''channel_id'', relier_channelId b)]))"

section \<open>Properties of the pairing authority broker\<close>

subsection \<open>Requests and sends\<close>

lemma request_omitted_data:
  "request b chan message JUndefined =
     ([ChannelRequest message (JObj [(''channel_id'', relier_channelId b)])],
      Returns (settle (chan_request chan message (JObj [(''channel_id'', relier_channelId b)]))))"
  by (simp add: request_def default_data_def)

lemma send_omitted_data:
  "send b chan message JUndefined =
     ([ChannelSend message (JObj [(''channel_id'', relier_channelId b)])],
      Returns (settle (chan_send chan message (JObj [(''channel_id'', relier_channelId b)]))))"
  by (simp add: send_def default_data_def)


lemma heartbeat_unfold:
  "heartbeat b chan =
     (ChannelRequest (PAIR_HEARTBEAT (COMMANDS b)) (JObj [(''channel_id'', relier_channelId b)])
        # (case heartbeat_reply b chan of Fulfilled r \<Rightarrow> heartbeat_response r | _ \<Rightarrow> []),
      Returns ())"
  by (simp add: heartbeat_def request_omitted_data heartbeat_reply_def split: promise.splits)



subsection \<open>The heartbeat\<close>

lemma heartbeat_response_no_request:
  "filter (is_heartbeat_request b) (heartbeat_response r) = []"
  by (simp add: heartbeat_response_def split: sum.splits)

lemma heartbeat_one_request:
  "filter (is_heartbeat_request b) (fst (heartbeat b chan)) =
     [ChannelRequest (PAIR_HEARTBEAT (COMMANDS b)) (JObj [(''channel_id'', relier_channelId b)])]"
  by (simp add: heartbeat_unfold heartbeat_response_no_request split: promise.splits)

lemma count_concat_const:
  "length (filter P (concat (map (\<lambda>h. ys) xs))) = length xs * length (filter P ys)"
  by (induction xs) simp_all

lemma tick_requests:
  "length (filter (is_heartbeat_request (brk w)) (tick w chan)) = length (active (intervals w))"
  by (simp add: tick_def count_concat_const heartbeat_one_request)

lemma exec_all_ticks:
  "exec_all (map Tick cs) w = (w, concat (map (tick w) cs))"
  by (induction cs) simp_all

lemma ticks_requests:
  "length (filter (is_heartbeat_request (brk w)) (concat (map (tick w) cs)))
     = length cs * length (active (intervals w))"
  by (induction cs) (simp_all add: tick_requests)

lemma startHeartbeat_fields:
  "heartbeatInterval (brk (startHeartbeat w)) = Some (next_handle (intervals w))"
  "active (intervals (startHeartbeat w)) = active (intervals w) @ [next_handle (intervals w)]"
  "next_handle (intervals (startHeartbeat w)) = Suc (next_handle (intervals w))"
  "COMMANDS (brk (startHeartbeat w)) = COMMANDS (brk w)"
  by (simp_all add: startHeartbeat_def setInterval_def)

lemma stopHeartbeat_fields:
  "brk (stopHeartbeat w) = brk w"
  "next_handle (intervals (stopHeartbeat w)) = next_handle (intervals w)"
  "active (intervals (stopHeartbeat w)) =
     (case heartbeatInterval (brk w) of None \<Rightarrow> active (intervals w)
      | Some i \<Rightarrow> removeAll i (active (intervals w)))"
  by (simp_all add: stopHeartbeat_def clearInterval_def split: option.splits)

lemma is_heartbeat_request_cong:
  "COMMANDS b = COMMANDS b' \<Longrightarrow> is_heartbeat_request b = is_heartbeat_request b'"
proof
  fix x assume "COMMANDS b = COMMANDS b'"
  then show "is_heartbeat_request b x = is_heartbeat_request b' x" by (cases x) simp_all
qed

text \<open>
  Claim C1, as stated, fails: a response that carries a truthy \<open>suppAuthorized\<close> together
  with an error does not trigger the notification.
\<close>

theorem heartbeat_authorized_with_error_counterexample:
  "get_prop (JObj [(''err'', JStr ''E''), (''suppAuthorized'', JBool True)]) ''suppAuthorized''
     = Inr (JBool True)
   \<and> truthy (JBool True)
   \<and> heartbeat_reply example_broker
       (replying_channel (JObj [(''err'', JStr ''E''), (''suppAuthorized'', JBool True)]))
     = Fulfilled (JObj [(''err'', JStr ''E''), (''suppAuthorized'', JBool True)])
   \<and> NotifierTrigger ''pair:supp:authorize'' \<notin> set (fst (heartbeat example_broker
       (replying_channel (JObj [(''err'', JStr ''E''), (''suppAuthorized'', JBool True)]))))"
  by (simp add: heartbeat_unfold heartbeat_response_def heartbeat_reply_def replying_channel_def)

text \<open>
  Claim C1, amended. For every response to a heartbeat request, of whatever kind: when its
  \<open>err\<close> is truthy, the state machine's \<open>heartbeatError\<close> is called with it and nothing
  else happens; when \<open>err\<close> is not truthy and \<open>suppAuthorized\<close> is truthy, the notification
  \<open>pair:supp:authorize\<close> is triggered exactly once and the state machine is not called by
  the broker; when neither is truthy, the broker calls neither. A response whose fields
  cannot be read (\<open>null\<close>, \<open>undefined\<close>) has neither field truthy. In every case
  \<open>heartbeat\<close> returns without throwing.
\<close>

theorem heartbeat_classifies_response:
  "heartbeat_reply b chan = Fulfilled r \<Longrightarrow>
     (\<forall>e. get_prop r ''err'' = Inr e \<and> truthy e \<longrightarrow>
        fst (heartbeat b chan) =
          [ChannelRequest (PAIR_HEARTBEAT (COMMANDS b)) (JObj [(''channel_id'', relier_channelId b)]),
           StateMachineHeartbeatError e])
   \<and> (\<forall>a. \<not> (\<exists>e. get_prop r ''err'' = Inr e \<and> truthy e) \<and>
           get_prop r ''suppAuthorized'' = Inr a \<and> truthy a \<longrightarrow>
        fst (heartbeat b chan) =
          [ChannelRequest (PAIR_HEARTBEAT (COMMANDS b)) (JObj [(''channel_id'', relier_channelId b)]),
           NotifierTrigger ''pair:supp:authorize''])
   \<and> (\<not> (\<exists>e. get_prop r ''err'' = Inr e \<and> truthy e) \<and>
       \<not> (\<exists>a. get_prop r ''suppAuthorized'' = Inr a \<and> truthy a) \<longrightarrow>
        fst (heartbeat b chan) =
          [ChannelRequest (PAIR_HEARTBEAT (COMMANDS b)) (JObj [(''channel_id'', relier_channelId b)])])
   \<and> (\<forall>x. get_prop r ''err'' = Inl x \<longrightarrow>
        fst (heartbeat b chan) =
          [ChannelRequest (PAIR_HEARTBEAT (COMMANDS b)) (JObj [(''channel_id'', relier_channelId b)])])
   \<and> snd (heartbeat b chan) = Returns ()"
proof -
  assume f: "heartbeat_reply b chan = Fulfilled r"
  let ?req = "ChannelRequest (PAIR_HEARTBEAT (COMMANDS b)) (JObj [(''channel_id'', relier_channelId b)])"
  have h: "heartbeat b chan = (?req # heartbeat_response r, Returns ())"
    using f by (simp add: heartbeat_unfold)
  have unreadable: "get_prop r ''suppAuthorized'' = Inl x" if "get_prop r ''err'' = Inl x" for x
    using that by (cases r) simp_all
  have c1: "\<forall>e. get_prop r ''err'' = Inr e \<and> truthy e \<longrightarrow>
              fst (heartbeat b chan) = [?req, StateMachineHeartbeatError e]"
    by (simp add: h heartbeat_response_def)
  have c2: "\<forall>a. \<not> (\<exists>e. get_prop r ''err'' = Inr e \<and> truthy e) \<and>
              get_prop r ''suppAuthorized'' = Inr a \<and> truthy a \<longrightarrow>
              fst (heartbeat b chan) = [?req, NotifierTrigger ''pair:supp:authorize'']"
  proof (intro allI impI)
    fix a
    assume p: "\<not> (\<exists>e. get_prop r ''err'' = Inr e \<and> truthy e) \<and>
              get_prop r ''suppAuthorized'' = Inr a \<and> truthy a"
    show "fst (heartbeat b chan) = [?req, NotifierTrigger ''pair:supp:authorize'']"
    proof (cases "get_prop r ''err''")
      case (Inl x)
      from unreadable [OF Inl] p show ?thesis by simp
    next
      case (Inr e)
      with p have "\<not> truthy e" by simp
      with Inr p show ?thesis by (simp add: h heartbeat_response_def)
    qed
  qed
  have c3: "\<not> (\<exists>e. get_prop r ''err'' = Inr e \<and> truthy e) \<and>
            \<not> (\<exists>a. get_prop r ''suppAuthorized'' = Inr a \<and> truthy a) \<longrightarrow>
              fst (heartbeat b chan) = [?req]"
  proof
    assume p: "\<not> (\<exists>e. get_prop r ''err'' = Inr e \<and> truthy e) \<and>
            \<not> (\<exists>a. get_prop r ''suppAuthorized'' = Inr a \<and> truthy a)"
    show "fst (heartbeat b chan) = [?req]"
    proof (cases "get_prop r ''err''")
      case (Inl x)
      then show ?thesis by (simp add: h heartbeat_response_def)
    next
      case (Inr e)
      with p have "\<not> truthy e" by simp
      with Inr p show ?thesis by (simp add: h heartbeat_response_def split: sum.splits)
    qed
  qed
  have c4: "\<forall>x. get_prop r ''err'' = Inl x \<longrightarrow> fst (heartbeat b chan) = [?req]"
    by (simp add: h heartbeat_response_def)
  have c5: "snd (heartbeat b chan) = Returns ()"
    by (simp add: h)
  from c1 c2 c3 c4 c5 show ?thesis by blast
qed

theorem heartbeat_classifies_response_witness:
  "fst (heartbeat example_broker (replying_channel (JObj [(''suppAuthorized'', JBool True)]))) =
     [ChannelRequest (JStr ''pair:heartbeat'') (JObj [(''channel_id'', JStr ''c1'')]),
      NotifierTrigger ''pair:supp:authorize'']
   \<and> fst (heartbeat example_broker (replying_channel (JObj [(''err'', JStr ''E'')]))) =
     [ChannelRequest (JStr ''pair:heartbeat'') (JObj [(''channel_id'', JStr ''c1'')]),
      StateMachineHeartbeatError (JStr ''E'')]
   \<and> fst (heartbeat example_broker (replying_channel (JObj []))) =
     [ChannelRequest (JStr ''pair:heartbeat'') (JObj [(''channel_id'', JStr ''c1'')])]
   \<and> fst (heartbeat example_broker (replying_channel JNull)) =
     [ChannelRequest (JStr ''pair:heartbeat'') (JObj [(''channel_id'', JStr ''c1'')])]"
proof -
  have c: "PAIR_HEARTBEAT (COMMANDS example_broker) = JStr ''pair:heartbeat''"
          "relier_channelId example_broker = JStr ''c1''"
    by (simp_all add: example_broker_def example_commands_def)
  have r: "\<And>x. heartbeat_reply example_broker (replying_channel x) = Fulfilled x"
    by (simp add: heartbeat_reply_def replying_channel_def)
  from heartbeat_classifies_response [OF r [of "JObj [(''suppAuthorized'', JBool True)]"]]
  have a: "fst (heartbeat example_broker (replying_channel (JObj [(''suppAuthorized'', JBool True)]))) =
     [ChannelRequest (JStr ''pair:heartbeat'') (JObj [(''channel_id'', JStr ''c1'')]),
      NotifierTrigger ''pair:supp:authorize'']"
    unfolding c by simp
  from heartbeat_classifies_response [OF r [of "JObj [(''err'', JStr ''E'')]"]]
  have b: "fst (heartbeat example_broker (replying_channel (JObj [(''err'', JStr ''E'')]))) =
     [ChannelRequest (JStr ''pair:heartbeat'') (JObj [(''channel_id'', JStr ''c1'')]),
      StateMachineHeartbeatError (JStr ''E'')]"
    unfolding c by simp
  from heartbeat_classifies_response [OF r [of "JObj []"]]
  have d: "fst (heartbeat example_broker (replying_channel (JObj []))) =
     [ChannelRequest (JStr ''pair:heartbeat'') (JObj [(''channel_id'', JStr ''c1'')])]"
    unfolding c by simp
  from heartbeat_classifies_response [OF r [of JNull]]
  have e: "fst (heartbeat example_broker (replying_channel JNull)) =
     [ChannelRequest (JStr ''pair:heartbeat'') (JObj [(''channel_id'', JStr ''c1'')])]"
    unfolding c by simp
  from a b d e show ?thesis by blast
qed

text \<open>
  Claim C9. When the \<open>err\<close> of a heartbeat response is truthy, the only call after the
  request is \<open>heartbeatError(err)\<close>, and \<open>pair:supp:authorize\<close> is not triggered, whatever
  \<open>suppAuthorized\<close> is.
\<close>

theorem heartbeat_error_branch_first:
  "heartbeat_reply b chan = Fulfilled r \<Longrightarrow> get_prop r ''err'' = Inr e \<Longrightarrow> truthy e \<Longrightarrow>
     heartbeat b chan =
       ([ChannelRequest (PAIR_HEARTBEAT (COMMANDS b)) (JObj [(''channel_id'', relier_channelId b)]),
         StateMachineHeartbeatError e], Returns ())
     \<and> NotifierTrigger ''pair:supp:authorize'' \<notin> set (fst (heartbeat b chan))"
  by (simp add: heartbeat_unfold heartbeat_response_def)

theorem heartbeat_error_branch_first_witness:
  "get_prop (JObj [(''err'', JStr ''E''), (''suppAuthorized'', JBool True)]) ''suppAuthorized''
     = Inr (JBool True)
   \<and> heartbeat example_broker
       (replying_channel (JObj [(''err'', JStr ''E''), (''suppAuthorized'', JBool True)])) =
       ([ChannelRequest (JStr ''pair:heartbeat'') (JObj [(''channel_id'', JStr ''c1'')]),
         StateMachineHeartbeatError (JStr ''E'')], Returns ())
   \<and> NotifierTrigger ''pair:supp:authorize'' \<notin> set (fst (heartbeat example_broker
       (replying_channel (JObj [(''err'', JStr ''E''), (''suppAuthorized'', JBool True)]))))"
proof -
  let ?r = "JObj [(''err'', JStr ''E''), (''suppAuthorized'', JBool True)]"
  have r: "heartbeat_reply example_broker (replying_channel ?r) = Fulfilled ?r"
    by (simp add: heartbeat_reply_def replying_channel_def)
  have g: "get_prop ?r ''err'' = Inr (JStr ''E'')" by simp
  have t: "truthy (JStr ''E'')" by simp
  have c: "PAIR_HEARTBEAT (COMMANDS example_broker) = JStr ''pair:heartbeat''"
          "relier_channelId example_broker = JStr ''c1''"
    by (simp_all add: example_broker_def example_commands_def)
  have s: "get_prop ?r ''suppAuthorized'' = Inr (JBool True)" by simp
  from heartbeat_error_branch_first [OF r g t] s show ?thesis
    unfolding c by simp
qed

text \<open>
  Claim C2, as stated, fails: when the channel request of a heartbeat is rejected, nothing
  is handed to the state machine.
\<close>

theorem heartbeat_rejection_counterexample:
  "heartbeat_reply example_broker (rejecting_channel (AuthError ''UNEXPECTED_ERROR''))
     = Rejected (AuthError ''UNEXPECTED_ERROR'')
   \<and> fst (heartbeat example_broker (rejecting_channel (AuthError ''UNEXPECTED_ERROR'')))
     = [ChannelRequest (JStr ''pair:heartbeat'') (JObj [(''channel_id'', JStr ''c1'')])]
   \<and> filter is_state_machine_call
        (fst (heartbeat example_broker (rejecting_channel (AuthError ''UNEXPECTED_ERROR'')))) = []"
  by (simp add: heartbeat_unfold heartbeat_reply_def rejecting_channel_def example_broker_def
        example_commands_def)

text \<open>
  Claim C2, amended. An error reported in the \<open>err\<close> field of a heartbeat response is handed
  to the state machine and not thrown; a request that fails (the channel throws or rejects)
  is neither thrown to the caller nor handed to the state machine; and no outcome of a
  round trip touches the timer: after \<open>startHeartbeat\<close> every period issues one heartbeat
  request for each active interval, whatever the channel does, and the interval that was
  started is active until \<open>stopHeartbeat\<close> clears it.
\<close>

theorem heartbeat_errors_leave_timer_running:
  "(\<forall>r e. heartbeat_reply b chan = Fulfilled r \<and> get_prop r ''err'' = Inr e \<and> truthy e \<longrightarrow>
      heartbeat b chan =
        ([ChannelRequest (PAIR_HEARTBEAT (COMMANDS b)) (JObj [(''channel_id'', relier_channelId b)]),
          StateMachineHeartbeatError e], Returns ()))
 \<and> (\<forall>e. heartbeat_reply b chan = Rejected e \<longrightarrow>
      heartbeat b chan =
        ([ChannelRequest (PAIR_HEARTBEAT (COMMANDS b)) (JObj [(''channel_id'', relier_channelId b)])],
         Returns ()))
 \<and> snd (heartbeat b chan) = Returns ()
 \<and> fst (exec_all (map Tick cs) (startHeartbeat w)) = startHeartbeat w
 \<and> next_handle (intervals w) \<in> set (active (intervals (fst (exec_all (map Tick cs) (startHeartbeat w)))))
 \<and> length (filter (is_heartbeat_request (brk w)) (snd (exec_all (map Tick cs) (startHeartbeat w))))
      = length cs * Suc (length (active (intervals w)))
 \<and> next_handle (intervals w) \<notin> set (active (intervals (stopHeartbeat (startHeartbeat w))))"
proof (intro conjI allI impI)
  fix r e
  assume "heartbeat_reply b chan = Fulfilled r \<and> get_prop r ''err'' = Inr e \<and> truthy e"
  then show "heartbeat b chan =
        ([ChannelRequest (PAIR_HEARTBEAT (COMMANDS b)) (JObj [(''channel_id'', relier_channelId b)]),
          StateMachineHeartbeatError e], Returns ())"
    by (simp add: heartbeat_unfold heartbeat_response_def)
next
  fix e
  assume "heartbeat_reply b chan = Rejected e"
  then show "heartbeat b chan =
        ([ChannelRequest (PAIR_HEARTBEAT (COMMANDS b)) (JObj [(''channel_id'', relier_channelId b)])],
         Returns ())"
    by (simp add: heartbeat_unfold)
next
  show "snd (heartbeat b chan) = Returns ()"
    by (simp add: heartbeat_unfold)
next
  show "fst (exec_all (map Tick cs) (startHeartbeat w)) = startHeartbeat w"
    by (simp add: exec_all_ticks)
next
  show "next_handle (intervals w) \<in> set (active (intervals (fst (exec_all (map Tick cs) (startHeartbeat w)))))"
    by (simp add: exec_all_ticks startHeartbeat_fields)
next
  have c: "is_heartbeat_request (brk w) = is_heartbeat_request (brk (startHeartbeat w))"
    by (rule is_heartbeat_request_cong) (simp add: startHeartbeat_fields)
  show "length (filter (is_heartbeat_request (brk w)) (snd (exec_all (map Tick cs) (startHeartbeat w))))
      = length cs * Suc (length (active (intervals w)))"
    unfolding c by (simp add: exec_all_ticks ticks_requests startHeartbeat_fields)
next
  show "next_handle (intervals w) \<notin> set (active (intervals (stopHeartbeat (startHeartbeat w))))"
    by (simp add: stopHeartbeat_fields startHeartbeat_fields)
qed

theorem heartbeat_errors_leave_timer_running_witness:
  "heartbeat example_broker (replying_channel (JObj [(''err'', JStr ''timeout'')])) =
     ([ChannelRequest (JStr ''pair:heartbeat'') (JObj [(''channel_id'', JStr ''c1'')]),
       StateMachineHeartbeatError (JStr ''timeout'')], Returns ())
   \<and> heartbeat example_broker (rejecting_channel (AuthError ''UNEXPECTED_ERROR'')) =
     ([ChannelRequest (JStr ''pair:heartbeat'') (JObj [(''channel_id'', JStr ''c1'')])], Returns ())
   \<and> length (filter (is_heartbeat_request example_broker)
        (snd (exec_all
           (map Tick [rejecting_channel (AuthError ''UNEXPECTED_ERROR''),
                      throwing_channel TypeError,
                      replying_channel (JObj [(''err'', JStr ''timeout'')])])
           (startHeartbeat example_world)))) = 3"
proof -
  note t = heartbeat_errors_leave_timer_running
  have r1: "heartbeat_reply example_broker (replying_channel (JObj [(''err'', JStr ''timeout'')]))
              = Fulfilled (JObj [(''err'', JStr ''timeout'')])"
    by (simp add: heartbeat_reply_def replying_channel_def)
  have g: "get_prop (JObj [(''err'', JStr ''timeout'')]) ''err'' = Inr (JStr ''timeout'')
             \<and> truthy (JStr ''timeout'')"
    by simp
  have r2: "heartbeat_reply example_broker (rejecting_channel (AuthError ''UNEXPECTED_ERROR''))
              = Rejected (AuthError ''UNEXPECTED_ERROR'')"
    by (simp add: heartbeat_reply_def rejecting_channel_def)
  have c: "COMMANDS example_broker = example_commands"
          "relier_channelId example_broker = JStr ''c1''"
          "PAIR_HEARTBEAT example_commands = JStr ''pair:heartbeat''"
          "brk example_world = example_broker"
          "active (intervals example_world) = []"
    by (simp_all add: example_broker_def example_commands_def example_world_def)
  from t [of example_broker "replying_channel (JObj [(''err'', JStr ''timeout'')])" "[]" example_world]
       r1 g
  have a: "heartbeat example_broker (replying_channel (JObj [(''err'', JStr ''timeout'')])) =
     ([ChannelRequest (JStr ''pair:heartbeat'') (JObj [(''channel_id'', JStr ''c1'')]),
       StateMachineHeartbeatError (JStr ''timeout'')], Returns ())"
    unfolding c by blast
  from t [of example_broker "rejecting_channel (AuthError ''UNEXPECTED_ERROR'')" "[]" example_world] r2
  have b: "heartbeat example_broker (rejecting_channel (AuthError ''UNEXPECTED_ERROR'')) =
     ([ChannelRequest (JStr ''pair:heartbeat'') (JObj [(''channel_id'', JStr ''c1'')])], Returns ())"
    unfolding c by blast
  from t [of example_broker "rejecting_channel (AuthError ''UNEXPECTED_ERROR'')"
            "[rejecting_channel (AuthError ''UNEXPECTED_ERROR''), throwing_channel TypeError,
              replying_channel (JObj [(''err'', JStr ''timeout'')])]" example_world]
  have d: "length (filter (is_heartbeat_request example_broker)
        (snd (exec_all
           (map Tick [rejecting_channel (AuthError ''UNEXPECTED_ERROR''),
                      throwing_channel TypeError,
                      replying_channel (JObj [(''err'', JStr ''timeout'')])])
           (startHeartbeat example_world)))) = 3"
    unfolding c by simp
  from a b d show ?thesis by blast
qed

subsection \<open>The supplicant metadata\<close>

lemma getSupplicantMetadata_cached:
  "truthy (remoteMetaData b) \<Longrightarrow>
     getSupplicantMetadata b chan = (b, [], Returns (Fulfilled (remoteMetaData b)))"
  by (simp add: getSupplicantMetadata_def)

lemma getSupplicantMetadata_miss:
  "\<not> truthy (remoteMetaData b) \<Longrightarrow>
     getSupplicantMetadata b chan =
       (case metadata_reply b chan of
          Fulfilled r \<Rightarrow>
            (case setRemoteMetaData b r of
               SyncThrow e \<Rightarrow>
                 (b,
                  [ChannelRequest (PAIR_REQUEST_SUPPLICANT_METADATA (COMMANDS b))
                     (JObj [(''channel_id'', relier_channelId b)]), SetRemoteMetaData r],
                  Returns (Rejected e))
             | Returns v \<Rightarrow>
                 (case get_prop r ''confirmation_code'' of
                    Inl e \<Rightarrow>
                      (b\<lparr>remoteMetaData := v\<rparr>,
                       [ChannelRequest (PAIR_REQUEST_SUPPLICANT_METADATA (COMMANDS b))
                          (JObj [(''channel_id'', relier_channelId b)]), SetRemoteMetaData r],
                       Returns (Rejected e))
                  | Inr c \<Rightarrow>
                      (b\<lparr>remoteMetaData := v, confirmationCode := c\<rparr>,
                       [ChannelRequest (PAIR_REQUEST_SUPPLICANT_METADATA (COMMANDS b))
                          (JObj [(''channel_id'', relier_channelId b)]), SetRemoteMetaData r],
                       Returns (Fulfilled v))))
        | Rejected e \<Rightarrow>
            (b, [ChannelRequest (PAIR_REQUEST_SUPPLICANT_METADATA (COMMANDS b))
                   (JObj [(''channel_id'', relier_channelId b)])], Returns (Rejected e))
        | Pending \<Rightarrow>
            (b, [ChannelRequest (PAIR_REQUEST_SUPPLICANT_METADATA (COMMANDS b))
                   (JObj [(''channel_id'', relier_channelId b)])], Returns Pending))"
  by (simp add: getSupplicantMetadata_def request_omitted_data metadata_reply_def
        Let_def split: promise.splits sum.splits outcome.splits)

lemma getSupplicantMetadata_keeps_handle:
  "heartbeatInterval (fst (getSupplicantMetadata b chan)) = heartbeatInterval b"
proof (cases "truthy (remoteMetaData b)")
  case True
  then show ?thesis by (simp add: getSupplicantMetadata_cached)
next
  case False
  then show ?thesis
    by (simp add: getSupplicantMetadata_miss split: promise.splits sum.splits outcome.splits)
qed




subsection \<open>The timer handle\<close>

lemma fetch_world:
  "fst (fetch super_fetch w chan) = w
   \<or> fst (fetch super_fetch w chan) = w\<lparr>brk := fst (getSupplicantMetadata (brk w) chan)\<rparr>
   \<or> fst (fetch super_fetch w chan) = startHeartbeat (w\<lparr>brk := fst (getSupplicantMetadata (brk w) chan)\<rparr>)"
  by (simp add: fetch_def split: promise.splits prod.splits)

lemma startHeartbeat_keeps_orphan:
  "h \<in> set (active (intervals w)) \<Longrightarrow> h < next_handle (intervals w) \<Longrightarrow>
     h \<in> set (active (intervals (startHeartbeat w)))
     \<and> h < next_handle (intervals (startHeartbeat w))
     \<and> heartbeatInterval (brk (startHeartbeat w)) \<noteq> Some h"
  by (simp add: startHeartbeat_fields)

lemma exec_keeps_orphan:
  assumes "h \<in> set (active (intervals w))" and "h < next_handle (intervals w)"
    and "heartbeatInterval (brk w) \<noteq> Some h"
  shows "h \<in> set (active (intervals (fst (exec x w))))
     \<and> h < next_handle (intervals (fst (exec x w)))
     \<and> heartbeatInterval (brk (fst (exec x w))) \<noteq> Some h"
proof (cases x)
  case StartHeartbeat
  with assms show ?thesis by (simp add: startHeartbeat_fields)
next
  case StopHeartbeat
  with assms show ?thesis by (auto simp: stopHeartbeat_fields split: option.splits)
next
  case (GetSupplicantMetadata chan)
  with assms show ?thesis
    by (simp add: getSupplicantMetadata_keeps_handle split: prod.splits)
       (metis fst_conv getSupplicantMetadata_keeps_handle)
next
  case (Fetch super_fetch chan)
  let ?w1 = "w\<lparr>brk := fst (getSupplicantMetadata (brk w) chan)\<rparr>"
  have w1: "h \<in> set (active (intervals ?w1))" "h < next_handle (intervals ?w1)"
    "heartbeatInterval (brk ?w1) \<noteq> Some h"
    using assms by (simp_all add: getSupplicantMetadata_keeps_handle)
  have e: "fst (exec x w) = fst (fetch super_fetch w chan)"
    using Fetch by (simp split: prod.splits)
  from fetch_world [of super_fetch w chan] show ?thesis
  proof (elim disjE)
    assume "fst (fetch super_fetch w chan) = w"
    with e assms show ?thesis by simp
  next
    assume "fst (fetch super_fetch w chan) = ?w1"
    with e w1 show ?thesis by simp
  next
    assume "fst (fetch super_fetch w chan) = startHeartbeat ?w1"
    with e startHeartbeat_keeps_orphan [OF w1(1) w1(2)] show ?thesis by simp
  qed
qed (use assms in simp_all)

lemma exec_all_Cons_fst:
  "fst (exec_all (x # xs) w) = fst (exec_all xs (fst (exec x w)))"
  by (simp split: prod.splits)

lemma exec_all_keeps_orphan:
  "h \<in> set (active (intervals w)) \<Longrightarrow> h < next_handle (intervals w) \<Longrightarrow>
   heartbeatInterval (brk w) \<noteq> Some h \<Longrightarrow>
     h \<in> set (active (intervals (fst (exec_all xs w))))"
proof (induction xs arbitrary: w)
  case Nil
  then show ?case by simp
next
  case (Cons x xs)
  from exec_keeps_orphan [OF Cons.prems, of x]
  have "h \<in> set (active (intervals (fst (exec_all xs (fst (exec x w))))))"
    by (intro Cons.IH) simp_all
  then show ?case by (simp only: exec_all_Cons_fst)
qed

text \<open>
  Claim C10. The broker keeps the handle of the last interval only. After two calls of
  \<open>startHeartbeat\<close> the stored handle is the second one; \<open>stopHeartbeat\<close> then clears the
  second interval and leaves the first active; no sequence of the broker's operations
  clears the first one afterwards, and it goes on issuing heartbeats.
\<close>

theorem second_startHeartbeat_orphans_first:
  "heartbeatInterval (brk (startHeartbeat w)) = Some (next_handle (intervals w))
 \<and> heartbeatInterval (brk (startHeartbeat (startHeartbeat w))) = Some (Suc (next_handle (intervals w)))
 \<and> Suc (next_handle (intervals w))
      \<notin> set (active (intervals (stopHeartbeat (startHeartbeat (startHeartbeat w)))))
 \<and> next_handle (intervals w)
      \<in> set (active (intervals (stopHeartbeat (startHeartbeat (startHeartbeat w)))))
 \<and> next_handle (intervals w)
      \<in> set (active (intervals (fst (exec_all xs (stopHeartbeat (startHeartbeat (startHeartbeat w)))))))
 \<and> 1 \<le> length (filter (is_heartbeat_request (brk w))
            (tick (stopHeartbeat (startHeartbeat (startHeartbeat w))) chan))"
proof -
  let ?h = "next_handle (intervals w)"
  let ?w3 = "stopHeartbeat (startHeartbeat (startHeartbeat w))"
  have a: "heartbeatInterval (brk (startHeartbeat w)) = Some ?h"
    by (simp add: startHeartbeat_fields)
  have b: "heartbeatInterval (brk (startHeartbeat (startHeartbeat w))) = Some (Suc ?h)"
    by (simp add: startHeartbeat_fields)
  have c: "Suc ?h \<notin> set (active (intervals ?w3))"
    by (simp add: stopHeartbeat_fields startHeartbeat_fields)
  have d: "?h \<in> set (active (intervals ?w3))"
    by (simp add: stopHeartbeat_fields startHeartbeat_fields)
  have n: "?h < next_handle (intervals ?w3)"
    by (simp add: stopHeartbeat_fields startHeartbeat_fields)
  have s: "heartbeatInterval (brk ?w3) \<noteq> Some ?h"
    by (simp add: stopHeartbeat_fields startHeartbeat_fields)
  have e: "?h \<in> set (active (intervals (fst (exec_all xs ?w3))))"
    by (rule exec_all_keeps_orphan [OF d n s])
  have q: "is_heartbeat_request (brk w) = is_heartbeat_request (brk ?w3)"
    by (rule is_heartbeat_request_cong) (simp add: stopHeartbeat_fields startHeartbeat_fields)
  have "active (intervals ?w3) \<noteq> []" using d by auto
  then have f: "1 \<le> length (filter (is_heartbeat_request (brk w)) (tick ?w3 chan))"
    unfolding q by (simp add: tick_requests Suc_le_eq)
  from a b c d e f show ?thesis by blast
qed

theorem second_startHeartbeat_orphans_first_witness:
  "active (intervals (stopHeartbeat (startHeartbeat (startHeartbeat example_world)))) = [1]
 \<and> heartbeatInterval (brk (stopHeartbeat (startHeartbeat (startHeartbeat example_world)))) = Some 2
 \<and> 1 \<in> set (active (intervals (fst (exec_all [StopHeartbeat, StopHeartbeat, StartHeartbeat, StopHeartbeat]
        (stopHeartbeat (startHeartbeat (startHeartbeat example_world)))))))"
proof -
  have n: "next_handle (intervals example_world) = 1"
    by (simp add: example_world_def)
  have a: "active (intervals (stopHeartbeat (startHeartbeat (startHeartbeat example_world)))) = [1]"
    by (simp add: stopHeartbeat_fields startHeartbeat_fields example_world_def)
  have b: "heartbeatInterval (brk (stopHeartbeat (startHeartbeat (startHeartbeat example_world)))) = Some 2"
    by (simp add: stopHeartbeat_fields startHeartbeat_fields example_world_def)
  from second_startHeartbeat_orphans_first
         [of example_world "[StopHeartbeat, StopHeartbeat, StartHeartbeat, StopHeartbeat]"
            "throwing_channel TypeError"]
  have "1 \<in> set (active (intervals (fst (exec_all [StopHeartbeat, StopHeartbeat, StartHeartbeat, StopHeartbeat]
        (stopHeartbeat (startHeartbeat (startHeartbeat example_world)))))))"
    unfolding n by blast
  with a b show ?thesis by blast
qed

section \<open>Properties of the base authentication broker\<close>

subsection \<open>The view-shown notification\<close>

lemma trigger_view_shown_times_used_up:
  "\<not> view_shown_pending b \<Longrightarrow> trigger_view_shown_times n b = (b, 0)"
  by (induction n) (simp_all add: trigger_view_shown_def)

lemma trigger_view_shown_times_pending:
  "view_shown_pending b \<Longrightarrow>
     trigger_view_shown_times (Suc n) b = (b\<lparr>view_shown_pending := False\<rparr>, 1)"
  by (simp add: trigger_view_shown_def trigger_view_shown_times_used_up)

text \<open>
  Claim C5, as stated, fails: two \<open>view-shown\<close> notifications invoke \<open>afterLoaded\<close> once,
  not twice, as the test "is invoked once on the view-shown notification" asserts.
\<close>

theorem afterLoaded_per_notification_counterexample:
  "snd (trigger_view_shown_times 2 new_base_broker) = 1
   \<and> snd (trigger_view_shown_times 2 new_base_broker) \<noteq> 2"
proof -
  have p: "view_shown_pending new_base_broker" by (simp add: new_base_broker_def)
  have "trigger_view_shown_times (Suc (Suc 0)) new_base_broker
          = (new_base_broker\<lparr>view_shown_pending := False\<rparr>, 1)"
    by (rule trigger_view_shown_times_pending [OF p])
  then show ?thesis by (simp add: numeral_2_eq_2)
qed

text \<open>
  Claim C5, amended. On a base broker \<open>afterLoaded\<close> is invoked exactly once however many
  \<open>view-shown\<close> notifications arrive (at least one): the first notification invokes it and
  the later ones do not.
\<close>

theorem afterLoaded_invoked_once:
  "0 < n \<Longrightarrow> snd (trigger_view_shown_times n new_base_broker) = 1"
proof -
  assume "0 < n"
  then obtain k where n: "n = Suc k" by (cases n) simp_all
  have p: "view_shown_pending new_base_broker" by (simp add: new_base_broker_def)
  show ?thesis unfolding n by (simp only: trigger_view_shown_times_pending [OF p] snd_conv)
qed

theorem afterLoaded_invoked_once_witness:
  "snd (trigger_view_shown_times 3 new_base_broker) = 1"
  using afterLoaded_invoked_once [of 3] by simp

subsection \<open>The status fetch\<close>

text \<open>
  Claim C6. When the status request fails with an invalid-web-channel error, the
  capability \<open>fxaStatus\<close> becomes \<open>false\<close> and the status fetch (and a \<open>fetch\<close> that performs
  it) still resolves; when it fails with any other error, both reject with that same error
  and the broker is unchanged.
\<close>

theorem fetchFxaStatus_error_classes:
  "(is_invalid_web_channel e \<longrightarrow>
      snd (fetchFxaStatus b (Rejected e)) = Fulfilled ()
      \<and> getCapability (fst (fetchFxaStatus b (Rejected e))) ''fxaStatus'' = JBool False
      \<and> \<not> hasCapability (fst (fetchFxaStatus b (Rejected e))) ''fxaStatus'')
 \<and> (\<not> is_invalid_web_channel e \<longrightarrow> fetchFxaStatus b (Rejected e) = (b, Rejected e))
 \<and> (hasCapability b ''fxaStatus'' \<and> is_invalid_web_channel e \<longrightarrow>
      snd (snd (base_fetch b (Rejected e))) = Fulfilled ()
      \<and> getCapability (fst (base_fetch b (Rejected e))) ''fxaStatus'' = JBool False
      \<and> \<not> hasCapability (fst (base_fetch b (Rejected e))) ''fxaStatus'')
 \<and> (hasCapability b ''fxaStatus'' \<and> \<not> is_invalid_web_channel e \<longrightarrow>
      base_fetch b (Rejected e) = (b, 1, Rejected e))"
  by (simp add: fetchFxaStatus_def base_fetch_def getCapability_def hasCapability_def
        setCapability_def)

theorem fetchFxaStatus_error_classes_witness:
  "snd (snd (base_fetch new_base_broker (Rejected (AuthError ''INVALID_WEB_CHANNEL'')))) = Fulfilled ()
   \<and> getCapability (fst (base_fetch new_base_broker (Rejected (AuthError ''INVALID_WEB_CHANNEL''))))
        ''fxaStatus'' = JBool False
   \<and> base_fetch new_base_broker (Rejected (AuthError ''UNEXPECTED_ERROR''))
        = (new_base_broker, 1, Rejected (AuthError ''UNEXPECTED_ERROR''))
   \<and> fetchFxaStatus new_base_broker (Rejected (AuthError ''UNEXPECTED_ERROR''))
        = (new_base_broker, Rejected (AuthError ''UNEXPECTED_ERROR''))"
proof -
  have h: "hasCapability new_base_broker ''fxaStatus''"
    by (simp add: hasCapability_def getCapability_def new_base_broker_def default_capabilities_def)
  have i: "is_invalid_web_channel (AuthError ''INVALID_WEB_CHANNEL'')"
    by (simp add: is_invalid_web_channel_def)
  have u: "\<not> is_invalid_web_channel (AuthError ''UNEXPECTED_ERROR'')"
    by (simp add: is_invalid_web_channel_def)
  from fetchFxaStatus_error_classes [of "AuthError ''INVALID_WEB_CHANNEL''" new_base_broker] h i
  have a: "snd (snd (base_fetch new_base_broker (Rejected (AuthError ''INVALID_WEB_CHANNEL'')))) = Fulfilled ()
   \<and> getCapability (fst (base_fetch new_base_broker (Rejected (AuthError ''INVALID_WEB_CHANNEL''))))
        ''fxaStatus'' = JBool False"
    by blast
  from fetchFxaStatus_error_classes [of "AuthError ''UNEXPECTED_ERROR''" new_base_broker] h u
  have b: "base_fetch new_base_broker (Rejected (AuthError ''UNEXPECTED_ERROR''))
        = (new_base_broker, 1, Rejected (AuthError ''UNEXPECTED_ERROR''))
   \<and> fetchFxaStatus new_base_broker (Rejected (AuthError ''UNEXPECTED_ERROR''))
        = (new_base_broker, Rejected (AuthError ''UNEXPECTED_ERROR''))"
    by blast
  from a b show ?thesis by blast
qed

subsection \<open>Default behaviors\<close>

text \<open>
  Claim C7. A hook whose behavior was not overridden resolves to a behavior whose \<open>halt\<close> is
  \<open>undefined\<close>, except \<open>afterSignInConfirmationPoll\<close> and \<open>afterSignUpConfirmationPoll\<close>,
  which resolve to \<open>halt = true\<close> with the endpoints \<open>signin_confirmed\<close> and
  \<open>signup_confirmed\<close>.
\<close>

theorem default_hooks_continue_except_polls:
  "behaviors b (hook_name h) = default_behaviors (hook_name h) \<Longrightarrow>
     (h = AfterSignInConfirmationPoll \<longrightarrow>
        run_hook b h = Fulfilled \<lparr>halt = JBool True, endpoint = JStr ''signin_confirmed''\<rparr>)
   \<and> (h = AfterSignUpConfirmationPoll \<longrightarrow>
        run_hook b h = Fulfilled \<lparr>halt = JBool True, endpoint = JStr ''signup_confirmed''\<rparr>)
   \<and> (h \<noteq> AfterSignInConfirmationPoll \<and> h \<noteq> AfterSignUpConfirmationPoll \<longrightarrow>
        (\<exists>x. run_hook b h = Fulfilled x \<and> halt x = JUndefined))"
  by (cases h)
     (simp_all add: run_hook_def getBehavior_def default_behaviors_def continue_behavior_def
        navigate_behavior_def)

theorem default_hooks_continue_except_polls_witness:
  "run_hook new_base_broker AfterSignInConfirmationPoll
     = Fulfilled \<lparr>halt = JBool True, endpoint = JStr ''signin_confirmed''\<rparr>
   \<and> run_hook new_base_broker AfterSignUpConfirmationPoll
     = Fulfilled \<lparr>halt = JBool True, endpoint = JStr ''signup_confirmed''\<rparr>
   \<and> (\<exists>x. run_hook new_base_broker BeforeSignIn = Fulfilled x \<and> halt x = JUndefined)"
proof -
  have d: "\<And>h. behaviors new_base_broker (hook_name h) = default_behaviors (hook_name h)"
    by (simp add: new_base_broker_def)
  from default_hooks_continue_except_polls [OF d [of AfterSignInConfirmationPoll]]
       default_hooks_continue_except_polls [OF d [of AfterSignUpConfirmationPoll]]
       default_hooks_continue_except_polls [OF d [of BeforeSignIn]]
  show ?thesis by simp
qed

subsection \<open>The capability registry\<close>

text \<open>
  Claim C8. After \<open>setCapability(name, v)\<close> with a truthy \<open>v\<close>, \<open>hasCapability(name)\<close> is
  true and \<open>getCapability(name)\<close> is \<open>v\<close>; after \<open>unsetCapability(name)\<close> the first is
  false and the second \<open>undefined\<close>; and \<open>hasCapability(name)\<close> is false for every falsy
  stored value, among them \<open>false\<close>, \<open>undefined\<close>, \<open>null\<close> and \<open>0\<close>.
\<close>

theorem capability_round_trip:
  "(truthy v \<longrightarrow>
      hasCapability (setCapability name v b) name \<and> getCapability (setCapability name v b) name = v)
 \<and> \<not> hasCapability (unsetCapability name (setCapability name v b)) name
 \<and> getCapability (unsetCapability name (setCapability name v b)) name = JUndefined
 \<and> \<not> hasCapability (unsetCapability name b) name
 \<and> getCapability (unsetCapability name b) name = JUndefined
 \<and> (\<not> truthy v \<longrightarrow> \<not> hasCapability (setCapability name v b) name)
 \<and> \<not> hasCapability (setCapability name (JBool False) b) name
 \<and> \<not> hasCapability (setCapability name JUndefined b) name
 \<and> \<not> hasCapability (setCapability name JNull b) name
 \<and> \<not> hasCapability (setCapability name (JNum 0) b) name"
  by (simp add: hasCapability_def getCapability_def setCapability_def unsetCapability_def)

theorem capability_round_trip_witness:
  "hasCapability (setCapability ''some-capability'' (JObj [(''key'', JStr ''value'')]) new_base_broker)
     ''some-capability''
   \<and> getCapability (setCapability ''some-capability'' (JObj [(''key'', JStr ''value'')]) new_base_broker)
     ''some-capability'' = JObj [(''key'', JStr ''value'')]
   \<and> \<not> hasCapability (setCapability ''some-capability'' (JStr []) new_base_broker) ''some-capability''"
proof -
  have t: "truthy (JObj [(''key'', JStr ''value'')])" by simp
  have f: "\<not> truthy (JStr [])" by simp
  from capability_round_trip [of "JObj [(''key'', JStr ''value'')]" "''some-capability''" new_base_broker] t
       capability_round_trip [of "JStr []" "''some-capability''" new_base_broker] f
  show ?thesis by blast
qed

end
